theory Spec2Isabelle
  imports Complex_Main "HOL-Library.List_Lexorder" "HOL-Library.Product_Lexorder"
begin

section \<open>Python strings\<close>

text \<open>
  A Python \<open>str\<close> is a sequence of Unicode code points, and \<open>len\<close>, indexing, comparison
  and the character classes all work on code points. A string is therefore a list of
  natural numbers; its order is the lexicographic order on code points, which is Python's
  \<open>str\<close> comparison. ASCII literals of the source are written with \<open>ascii\<close>; Cyrillic
  and symbol literals are written as their code points and named in the text beside them.
\<close>

type_synonym ustr = "nat list"

definition ascii :: "string \<Rightarrow> ustr" where
  "ascii s = map of_char s"

text \<open>
  \<open>str.lower\<close> and \<open>str.upper\<close>: the case mapping of the Basic Latin and Cyrillic
  blocks (U+0041..U+005A, U+0400..U+042F and back), the alphabets of the sheets and of the
  directory. Other code points are left as they are.
\<close>

definition lower_cp :: "nat \<Rightarrow> nat" where
  "lower_cp c =
     (if 65 \<le> c \<and> c \<le> 90 then c + 32
      else if 1040 \<le> c \<and> c \<le> 1071 then c + 32
      else if 1024 \<le> c \<and> c \<le> 1039 then c + 80
      else c)"

definition upper_cp :: "nat \<Rightarrow> nat" where
  "upper_cp c =
     (if 97 \<le> c \<and> c \<le> 122 then c - 32
      else if 1072 \<le> c \<and> c \<le> 1103 then c - 32
      else if 1104 \<le> c \<and> c \<le> 1119 then c - 80
      else c)"

definition py_lower :: "ustr \<Rightarrow> ustr" where
  "py_lower s = map lower_cp s"

definition py_upper :: "ustr \<Rightarrow> ustr" where
  "py_upper s = map upper_cp s"

text \<open>The white space of \<open>str.split()\<close> and \<open>str.strip()\<close> (\<open>str.isspace\<close>).\<close>

definition is_space :: "nat \<Rightarrow> bool" where
  "is_space c =
     ((9 \<le> c \<and> c \<le> 13) \<or> (28 \<le> c \<and> c \<le> 32) \<or> c = 133 \<or> c = 160 \<or> c = 5760
      \<or> (8192 \<le> c \<and> c \<le> 8202) \<or> c = 8232 \<or> c = 8233 \<or> c = 8239 \<or> c = 8287
      \<or> c = 12288)"

text \<open>
  The decimal digits \<open>0\<close>..\<open>9\<close>. (Python's \<open>isdigit\<close> and \<open>\d\<close> also accept the digits of
  other scripts; the model keeps to the ASCII ones.)
\<close>

definition is_digit :: "nat \<Rightarrow> bool" where
  "is_digit c = (48 \<le> c \<and> c \<le> 57)"

definition py_isdigit :: "ustr \<Rightarrow> bool" where
  "py_isdigit s = (s \<noteq> [] \<and> list_all is_digit s)"

definition py_int :: "ustr \<Rightarrow> nat" where
  "py_int ds = foldl (\<lambda>a d. 10 * a + (d - 48)) 0 ds"

definition py_strip :: "ustr \<Rightarrow> ustr" where
  "py_strip s = rev (dropWhile is_space (rev (dropWhile is_space s)))"

definition py_replace :: "nat \<Rightarrow> nat \<Rightarrow> ustr \<Rightarrow> ustr" where
  "py_replace a b s = map (\<lambda>c. if c = a then b else c) s"

fun startswith :: "ustr \<Rightarrow> ustr \<Rightarrow> bool" where
  "startswith s [] = True"
| "startswith [] (p # ps) = False"
| "startswith (c # cs) (p # ps) = (c = p \<and> startswith cs ps)"

text \<open>\<open>sub in s\<close>\<close>

fun contains :: "ustr \<Rightarrow> ustr \<Rightarrow> bool" where
  "contains [] sub = (sub = [])"
| "contains (c # cs) sub = (startswith (c # cs) sub \<or> contains cs sub)"

text \<open>
  \<open>s.split()\<close>: the maximal runs of characters that are not white space, in order.
  The first argument is the run being read.
\<close>

fun split_ws :: "ustr \<Rightarrow> ustr \<Rightarrow> ustr list" where
  "split_ws cur [] = (if cur = [] then [] else [cur])"
| "split_ws cur (c # cs) =
     (if is_space c then (if cur = [] then split_ws [] cs else cur # split_ws [] cs)
      else split_ws (cur @ [c]) cs)"

definition py_split :: "ustr \<Rightarrow> ustr list" where
  "py_split s = split_ws [] s"

section \<open>Team rank (\<open>get_team_rank\<close>)\<close>

text \<open>
  \<open>re.search(r'stream(\d+)', tn)\<close> followed by \<open>int(match.group(1))\<close>: the leftmost
  occurrence of \<open>stream\<close> that a digit follows, and the number its longest run of digits
  spells.
\<close>

fun search_stream_num :: "ustr \<Rightarrow> nat option" where
  "search_stream_num [] = None"
| "search_stream_num (c # cs) =
     (if startswith (c # cs) (ascii ''stream'') \<and> takeWhile is_digit (drop 6 (c # cs)) \<noteq> []
      then Some (py_int (takeWhile is_digit (drop 6 (c # cs))))
      else search_stream_num cs)"

definition get_team_rank :: "ustr \<Rightarrow> nat \<times> nat \<times> ustr" where
  "get_team_rank team_name =
     (let tn = py_lower team_name in
      if tn = ascii ''other'' then (99, 0, tn)
      else if contains tn (ascii ''arch-team'') then (1, 0, tn)
      else if contains tn (ascii ''change-team'') then (2, 0, tn)
      else if contains tn (ascii ''stream'') then
        (3, (case search_stream_num tn of Some n \<Rightarrow> n | None \<Rightarrow> 999), tn)
      else (4, 0, tn))"



section \<open>Identity resolution (\<open>check_name_match\<close>)\<close>

text \<open>
  The tokens of a name: \<open>[p for p in str(name).lower().replace('.', ' ').split() if len(p) > 1]\<close>.
\<close>

definition name_tokens :: "ustr \<Rightarrow> ustr list" where
  "name_tokens s = filter (\<lambda>p. length p > 1) (py_split (py_replace 46 32 (py_lower s)))"

text \<open>
  The directory's \<open>displayName\<close> is a JSON string or null (\<open>None\<close>); the sheet's name is
  always a string. \<open>not jira_name\<close> holds for null and for the empty string.
\<close>

definition check_name_match :: "ustr option \<Rightarrow> ustr \<Rightarrow> bool" where
  "check_name_match jira_name excel_name =
     (case jira_name of
        None \<Rightarrow> False
      | Some j \<Rightarrow>
          if j = [] \<or> excel_name = [] then False
          else \<not> (set (name_tokens j) \<inter> set (name_tokens excel_name) = {}))"

text \<open>
  The names of the spec's example, in Cyrillic letters: Ivanov Ivan, Ivan Ivanov and
  Petrov Ivan.
\<close>

definition ivanov_ivan :: ustr where
  "ivanov_ivan = [1048, 1074, 1072, 1085, 1086, 1074, 32, 1048, 1074, 1072, 1085]"

definition ivan_ivanov :: ustr where
  "ivan_ivanov = [1048, 1074, 1072, 1085, 32, 1048, 1074, 1072, 1085, 1086, 1074]"

definition petrov_ivan :: ustr where
  "petrov_ivan = [1055, 1077, 1090, 1088, 1086, 1074, 32, 1048, 1074, 1072, 1085]"

section \<open>Worklogs (\<open>fetch_tempo_worklogs_for_users\<close>)\<close>

text \<open>
  An upstream request either fails (\<open>Failed\<close>: a status other than 200, or an exception
  raised by the HTTP client, which the \<open>try\<close>/\<open>except: pass\<close> around the call swallows) or
  returns its decoded payload.
\<close>

datatype 'a response = Failed | Ok 'a

text \<open>
  A worklog entry, read with \<open>l.get('worker')\<close> and \<open>l.get('timeSpentSeconds', 0)\<close>: either
  field may be absent.
\<close>

record worklog =
  worker :: "ustr option"
  timeSpentSeconds :: "int option"

text \<open>\<open>[worker_ids[i:i + 25] for i in range(0, len(worker_ids), 25)]\<close>\<close>

definition chunks25 :: "'a list \<Rightarrow> 'a list list" where
  "chunks25 worker_ids =
     map (\<lambda>i. take 25 (drop i worker_ids))
       (map (\<lambda>k. 25 * k) [0..<(length worker_ids + 24) div 25])"

text \<open>
  One turn of the loop over the chunks. The state is the list of worker lists posted so far
  (the requests issued, in order) and \<open>all_worklogs\<close>.
\<close>

definition fetch_step ::
  "('w list \<Rightarrow> worklog list response) \<Rightarrow> 'w list list \<times> worklog list \<Rightarrow> 'w list
     \<Rightarrow> 'w list list \<times> worklog list" where
  "fetch_step post st chunk_workers =
     (fst st @ [chunk_workers],
      (case post chunk_workers of Ok results \<Rightarrow> snd st @ results | Failed \<Rightarrow> snd st))"

definition fetch_trace ::
  "('w list \<Rightarrow> worklog list response) \<Rightarrow> 'w list \<Rightarrow> 'w list list \<times> worklog list" where
  "fetch_trace post worker_ids = foldl (fetch_step post) ([], []) (chunks25 worker_ids)"

definition fetch_tempo_worklogs_for_users ::
  "('w list \<Rightarrow> worklog list response) \<Rightarrow> 'w list \<Rightarrow> worklog list" where
  "fetch_tempo_worklogs_for_users post worker_ids = snd (fetch_trace post worker_ids)"

text \<open>
  The totals of \<open>worker_process_file\<close>:
  \<open>tempo_agg[wid] = tempo_agg.get(wid, 0) + l.get('timeSpentSeconds', 0)\<close>.
\<close>

definition get0 :: "('k \<rightharpoonup> int) \<Rightarrow> 'k \<Rightarrow> int" where
  "get0 m k = (case m k of None \<Rightarrow> 0 | Some v \<Rightarrow> v)"

definition seconds_of :: "worklog \<Rightarrow> int" where
  "seconds_of l = (case timeSpentSeconds l of None \<Rightarrow> 0 | Some s \<Rightarrow> s)"

definition agg_step :: "(ustr option \<rightharpoonup> int) \<Rightarrow> worklog \<Rightarrow> (ustr option \<rightharpoonup> int)" where
  "agg_step tempo_agg l = tempo_agg(worker l \<mapsto> get0 tempo_agg (worker l) + seconds_of l)"

definition aggregate :: "worklog list \<Rightarrow> (ustr option \<rightharpoonup> int)" where
  "aggregate logs = foldl agg_step Map.empty logs"

text \<open>
  What the answered requests returned, and the slices of width \<open>Suc p\<close> of a list (for the
  arithmetic of the batching proofs).
\<close>

definition results_of :: "('w list \<Rightarrow> worklog list response) \<Rightarrow> 'w list \<Rightarrow> worklog list" where
  "results_of post c = (case post c of Ok results \<Rightarrow> results | Failed \<Rightarrow> [])"

definition slices :: "nat \<Rightarrow> 'a list \<Rightarrow> 'a list list" where
  "slices p xs =
     map (\<lambda>k. take (Suc p) (drop (Suc p * k) xs)) [0..<(length xs + p) div Suc p]"

section \<open>The sheet\<close>

text \<open>
  A cell of the frame that \<open>pd.read_excel(file_bytes, header=None)\<close> returns is missing
  (\<open>NaN\<close>, the cells for which \<open>pd.isna\<close> holds), a text, or another object (a number, a
  boolean, a date-time). The code reads a cell only through \<open>pd.isna\<close>/\<open>pd.notna\<close> and
  \<open>str\<close>, so a present cell carries its \<open>str()\<close>; \<open>str\<close> of a missing cell is \<open>nan\<close>.
\<close>

datatype cell = NaN | Text ustr | Obj ustr

fun cell_str :: "cell \<Rightarrow> ustr" where
  "cell_str NaN = ascii ''nan''"
| "cell_str (Text s) = s"
| "cell_str (Obj s) = s"

definition notna :: "cell \<Rightarrow> bool" where
  "notna v = (v \<noteq> NaN)"

text \<open>
  A frame is rectangular: \<open>len(df_raw)\<close> rows and \<open>len(df_raw.columns)\<close> columns, both
  labelled 0, 1, ...; every read of the code is inside these bounds.
\<close>

record frame =
  nrows :: nat
  ncols :: nat
  cells :: "nat \<Rightarrow> nat \<Rightarrow> cell"

definition iloc :: "frame \<Rightarrow> nat \<Rightarrow> nat \<Rightarrow> cell" where
  "iloc df r c = cells df r c"

text \<open>The frame of a list of rows; a short row is filled up with missing cells.\<close>

definition frame_of :: "cell list list \<Rightarrow> frame" where
  "frame_of rows =
     \<lparr>nrows = length rows,
      ncols = foldr (\<lambda>r n. max (length r) n) rows 0,
      cells = (\<lambda>r c. if r < length rows \<and> c < length (rows ! r) then rows ! r ! c else NaN)\<rparr>"

definition row_values :: "frame \<Rightarrow> nat \<Rightarrow> cell list" where
  "row_values df r = map (iloc df r) [0..<ncols df]"

text \<open>\<open>df_raw.head(20)\<close>, as the list of its rows' values\<close>

definition head20 :: "frame \<Rightarrow> cell list list" where
  "head20 df = map (row_values df) [0..<min 20 (nrows df)]"

subsection \<open>The reporting period (\<open>extract_period_from_excel\<close>)\<close>

text \<open>A date is (year, month, day); the lexicographic order is the order of dates.\<close>

type_synonym date = "nat \<times> nat \<times> nat"

definition is_leap :: "nat \<Rightarrow> bool" where
  "is_leap y = (y mod 4 = 0 \<and> (y mod 100 \<noteq> 0 \<or> y mod 400 = 0))"

definition days_in_month :: "nat \<Rightarrow> nat \<Rightarrow> nat" where
  "days_in_month y m =
     (if m = 2 then (if is_leap y then 29 else 28)
      else if m = 4 \<or> m = 6 \<or> m = 9 \<or> m = 11 then 30 else 31)"

text \<open>The pattern \<open>\d{2}\.\d{2}\.\d{4}\<close> on a string of ten characters.\<close>

fun date_shape :: "ustr \<Rightarrow> bool" where
  "date_shape [d1, d2, p1, m1, m2, p2, y1, y2, y3, y4] =
     (is_digit d1 \<and> is_digit d2 \<and> p1 = 46 \<and> is_digit m1 \<and> is_digit m2 \<and> p2 = 46
      \<and> is_digit y1 \<and> is_digit y2 \<and> is_digit y3 \<and> is_digit y4)"
| "date_shape s = False"

text \<open>
  \<open>re.findall\<close> of that pattern: the matches from left to right, without overlap. The
  first argument counts the characters of the last match that are still to be passed.
\<close>

fun scan_dates :: "nat \<Rightarrow> ustr \<Rightarrow> ustr list" where
  "scan_dates k [] = []"
| "scan_dates k (c # cs) =
     (if 0 < k then scan_dates (k - 1) cs
      else if date_shape (take 10 (c # cs)) then take 10 (c # cs) # scan_dates 9 cs
      else scan_dates 0 cs)"

definition findall_dates :: "ustr \<Rightarrow> ustr list" where
  "findall_dates s = scan_dates 0 s"

text \<open>
  \<open>datetime.strptime(m, '%d.%m.%Y').date()\<close> on a match of the pattern; \<open>None\<close> is the
  \<open>ValueError\<close> of a day, month or year out of range, which the loop passes over.
\<close>

definition strptime_dmy :: "ustr \<Rightarrow> date option" where
  "strptime_dmy m =
     (let d = py_int (take 2 m); mo = py_int (take 2 (drop 3 m)); y = py_int (drop 6 m)
      in if 1 \<le> y \<and> 1 \<le> mo \<and> mo \<le> 12 \<and> 1 \<le> d \<and> d \<le> days_in_month y mo
         then Some (y, mo, d) else None)"

text \<open>
  \<open>str(row.values)\<close> is numpy's rendering of the row's values; it is not code of this
  repository and is a parameter (\<open>values_str\<close>) of the model.
\<close>

definition row_dates :: "(cell list \<Rightarrow> ustr) \<Rightarrow> cell list \<Rightarrow> date list" where
  "row_dates values_str row = List.map_filter strptime_dmy (findall_dates (values_str row))"

definition found_dates :: "(cell list \<Rightarrow> ustr) \<Rightarrow> cell list list \<Rightarrow> date list" where
  "found_dates values_str df_head = concat (map (row_dates values_str) df_head)"

definition extract_period_from_excel ::
  "(cell list \<Rightarrow> ustr) \<Rightarrow> cell list list \<Rightarrow> (date \<times> date) option" where
  "extract_period_from_excel values_str df_head =
     (case found_dates values_str df_head of
        d1 # d2 # ds \<Rightarrow> Some (fold min (d2 # ds) d1, fold max (d2 # ds) d1)
      | _ \<Rightarrow> None)"

subsection \<open>Locating the table\<close>

text \<open>\<open>str(val).lower().startswith(...)\<close> with the Cyrillic word for surname (familiya)\<close>

definition surname_word :: ustr where
  "surname_word = [1092, 1072, 1084, 1080, 1083, 1080, 1103]"

definition is_surname_cell :: "cell \<Rightarrow> bool" where
  "is_surname_cell val = startswith (py_lower (cell_str val)) surname_word"

fun first_some :: "('a \<Rightarrow> 'b option) \<Rightarrow> 'a list \<Rightarrow> 'b option" where
  "first_some f [] = None"
| "first_some f (x # xs) = (case f x of Some y \<Rightarrow> Some y | None \<Rightarrow> first_some f xs)"

text \<open>
  The two nested loops over \<open>df_raw.iterrows()\<close> and \<open>enumerate(row)\<close>, each left at the
  first hit: \<open>(header_row_idx, name_col_idx)\<close>, or \<open>None\<close>.
\<close>

definition find_header :: "frame \<Rightarrow> (nat \<times> nat) option" where
  "find_header df =
     first_some
       (\<lambda>idx. map_option (Pair idx) (find (\<lambda>c. is_surname_cell (iloc df idx c)) [0..<ncols df]))
       [0..<nrows df]"

text \<open>
  \<open>float\<close> is a parameter (\<open>to_float\<close>): \<open>None\<close> when it raises \<open>ValueError\<close>, the number
  otherwise. (The code uses the number only in \<open>h > hours\<close> with \<open>hours\<close> at least 0, where
  \<open>nan\<close> and \<open>-inf\<close> act as any number that is not positive; \<open>+inf\<close> has no counterpart
  among the reals.) The hours column is the last column whose cell in row \<open>len(df_raw)//2\<close>
  is present and is read by \<open>float\<close> after \<open>,\<close> is replaced by \<open>.\<close>.
\<close>

definition find_hours_col :: "(ustr \<Rightarrow> real option) \<Rightarrow> frame \<Rightarrow> nat option" where
  "find_hours_col to_float df =
     find (\<lambda>c. notna (iloc df (nrows df div 2) c)
               \<and> to_float (py_replace 44 46 (cell_str (iloc df (nrows df div 2) c))) \<noteq> None)
       (rev [0..<ncols df])"

text \<open>The Cyrillic word for code (kod)\<close>

definition code_word :: ustr where
  "code_word = [1082, 1086, 1076]"

definition absence_col_step :: "frame \<Rightarrow> nat \<Rightarrow> nat \<Rightarrow> nat list \<Rightarrow> nat \<Rightarrow> nat list" where
  "absence_col_step df name_col_idx r absence_cols c =
     (if name_col_idx < c \<and> contains (py_lower (cell_str (iloc df r c))) code_word
         \<and> c \<notin> set absence_cols
      then absence_cols @ [c] else absence_cols)"

definition find_absence_cols :: "frame \<Rightarrow> nat \<Rightarrow> nat \<Rightarrow> nat list" where
  "find_absence_cols df header_row_idx name_col_idx =
     foldl (\<lambda>absence_cols r. foldl (absence_col_step df name_col_idx r) absence_cols [0..<ncols df])
       [] [header_row_idx..<min (header_row_idx + 3) (nrows df)]"

subsection \<open>Extracting the records\<close>

text \<open>
  A directory user, \<open>{'login': login, 'key': key, 'displayName': d_name}\<close>; each field is
  a JSON string or null.
\<close>

record user =
  login :: "ustr option"
  key :: "ustr option"
  displayName :: "ustr option"

record employee =
  name_1c :: ustr
  hours_1c :: real
  jira_user :: "user option"
  absences :: "ustr list"

text \<open>
  \<open>{v['key']: v for v in JIRA_LOOKUP_CACHE.values()}.values()\<close>: a key keeps the place of its
  first entry and the value of its last.
\<close>

fun dict_set :: "('k \<times> 'v) list \<Rightarrow> 'k \<Rightarrow> 'v \<Rightarrow> ('k \<times> 'v) list" where
  "dict_set [] k v = [(k, v)]"
| "dict_set (p # ps) k v = (if fst p = k then (k, v) # ps else p # dict_set ps k v)"

definition unique_users :: "user list \<Rightarrow> user list" where
  "unique_users cache_values = map snd (foldl (\<lambda>d v. dict_set d (key v) v) [] cache_values)"

text \<open>The row labels that are not employees: totals, signature, position, profession.\<close>

definition skip_labels :: "ustr list" where
  "skip_labels =
     [[1080, 1090, 1086, 1075, 1086],
      [1087, 1086, 1076, 1087, 1080, 1089, 1100],
      [1076, 1086, 1083, 1078, 1085, 1086, 1089, 1090, 1100],
      [1087, 1088, 1086, 1092, 1077, 1089, 1089, 1080, 1103]]"

text \<open>\<open>str(raw_name).split('\n')[0].split('(')[0].strip()\<close>\<close>

definition clean_name_of :: "ustr \<Rightarrow> ustr" where
  "clean_name_of raw = py_strip (takeWhile (\<lambda>c. c \<noteq> 40) (takeWhile (\<lambda>c. c \<noteq> 10) raw))"

text \<open>The rows \<open>i + offset\<close> for \<open>offset\<close> in \<open>range(4)\<close>, up to the end of the frame.\<close>

definition block_rows :: "frame \<Rightarrow> nat \<Rightarrow> nat list" where
  "block_rows df i = [i..<min (i + 4) (nrows df)]"

text \<open>
  The hours of one row of the block. \<open>if hours_col_idx:\<close> is false for \<open>None\<close> and for the
  column 0.
\<close>

definition hours_step :: "(ustr \<Rightarrow> real option) \<Rightarrow> frame \<Rightarrow> nat option \<Rightarrow> real \<Rightarrow> nat \<Rightarrow> real" where
  "hours_step to_float df hours_col_idx hours r =
     (case hours_col_idx of
        None \<Rightarrow> hours
      | Some c \<Rightarrow>
          if c = 0 then hours
          else (case to_float (filter (\<lambda>x. x \<noteq> 32) (py_replace 44 46 (cell_str (iloc df r c)))) of
                  None \<Rightarrow> hours
                | Some h \<Rightarrow> if h > hours then h else hours))"

text \<open>\<open>s and not s.isdigit() and len(s) < 5 and s.upper() != ...\<close>, the letter being U+042F (Ya)\<close>

definition is_absence_code :: "ustr \<Rightarrow> bool" where
  "is_absence_code s = (s \<noteq> [] \<and> \<not> py_isdigit s \<and> length s < 5 \<and> py_upper s \<noteq> [1071])"

definition absence_step :: "frame \<Rightarrow> nat \<Rightarrow> ustr list \<Rightarrow> nat \<Rightarrow> ustr list" where
  "absence_step df r abs_set ac =
     (let val = iloc df r ac in
      if notna val then
        (let s = py_strip (cell_str val) in
         if is_absence_code s then List.insert s abs_set else abs_set)
      else abs_set)"

definition block_step ::
  "(ustr \<Rightarrow> real option) \<Rightarrow> frame \<Rightarrow> nat option \<Rightarrow> nat list \<Rightarrow> real \<times> ustr list \<Rightarrow> nat
     \<Rightarrow> real \<times> ustr list" where
  "block_step to_float df hours_col_idx absence_cols st r =
     (hours_step to_float df hours_col_idx (fst st) r,
      foldl (absence_step df r) (snd st) absence_cols)"

definition scan_block ::
  "(ustr \<Rightarrow> real option) \<Rightarrow> frame \<Rightarrow> nat option \<Rightarrow> nat list \<Rightarrow> nat \<Rightarrow> real \<times> ustr list" where
  "scan_block to_float df hours_col_idx absence_cols i =
     foldl (block_step to_float df hours_col_idx absence_cols) (0, []) (block_rows df i)"

text \<open>
  One turn of the loop over the rows below the header: the record of row \<open>i\<close>, or \<open>None\<close>
  when the row is passed over. The set \<open>absences\<close> is kept without repetitions and leaves
  the loop as \<open>sorted(list(absences))\<close>.
\<close>

definition extract_row ::
  "(ustr \<Rightarrow> real option) \<Rightarrow> user list \<Rightarrow> frame \<Rightarrow> nat \<Rightarrow> nat option \<Rightarrow> nat list \<Rightarrow> nat
     \<Rightarrow> employee option" where
  "extract_row to_float users df name_col_idx hours_col_idx absence_cols i =
     (let raw_name = iloc df i name_col_idx in
      if \<not> notna raw_name \<or> length (cell_str raw_name) < 2 then None
      else if list_ex (contains (py_lower (cell_str raw_name))) skip_labels then None
      else
        (let clean_name = clean_name_of (cell_str raw_name);
             st = scan_block to_float df hours_col_idx absence_cols i
         in if fst st > 0 \<or> snd st \<noteq> [] then
              Some \<lparr>name_1c = clean_name, hours_1c = fst st,
                    jira_user = find (\<lambda>u. check_name_match (displayName u) clean_name) users,
                    absences = sort (snd st)\<rparr>
            else None))"

definition extract_records ::
  "(ustr \<Rightarrow> real option) \<Rightarrow> user list \<Rightarrow> frame \<Rightarrow> nat \<Rightarrow> nat \<Rightarrow> nat option \<Rightarrow> nat list
     \<Rightarrow> employee list" where
  "extract_records to_float users df header_row_idx name_col_idx hours_col_idx absence_cols =
     List.map_filter (extract_row to_float users df name_col_idx hours_col_idx absence_cols)
       [Suc header_row_idx..<nrows df]"

text \<open>
  \<open>target_jira_keys\<close>: the keys of the users found, each once. (Python lists a set in an
  order of its own; the model lists the keys in the order of the records.)
\<close>

definition target_jira_keys :: "employee list \<Rightarrow> ustr option list" where
  "target_jira_keys excel_data = remdups (map key (List.map_filter jira_user excel_data))"

section \<open>Teams (\<open>get_tempo_teams_assignments\<close>)\<close>

record team =
  team_id :: ustr
  team_name :: ustr

text \<open>
  A membership entry: the member's key (\<open>m.get("member", {}).get("key")\<close>) and the two
  dates that \<open>parse_tempo_date\<close> reads from it, \<open>None\<close> where it finds none.
\<close>

record member =
  member_key :: "ustr option"
  date_from :: "date option"
  date_to :: "date option"

text \<open>
  The pattern \<open>^(stream.*-team|change-team|arch-team)$\<close> with \<open>re.IGNORECASE\<close> at
  \<open>pattern.match\<close>: \<open>.\<close> passes over no line feed, and \<open>$\<close> also holds before a line feed
  that ends the string. Ignoring case is modelled by \<open>py_lower\<close>.
\<close>

definition endswith :: "ustr \<Rightarrow> ustr \<Rightarrow> bool" where
  "endswith s suffix = startswith (rev s) (rev suffix)"

definition team_pattern_body :: "ustr \<Rightarrow> bool" where
  "team_pattern_body s =
     (s = ascii ''change-team'' \<or> s = ascii ''arch-team''
      \<or> (startswith s (ascii ''stream'') \<and> endswith s (ascii ''-team'') \<and> 11 \<le> length s
          \<and> 10 \<notin> set s))"

definition team_pattern_match :: "ustr \<Rightarrow> bool" where
  "team_pattern_match name =
     (let s = py_lower name in
      team_pattern_body s \<or> (s \<noteq> [] \<and> last s = 10 \<and> team_pattern_body (butlast s)))"

definition member_step ::
  "date \<Rightarrow> date \<Rightarrow> ustr \<Rightarrow> (ustr option \<rightharpoonup> ustr) \<Rightarrow> member \<Rightarrow> (ustr option \<rightharpoonup> ustr)" where
  "member_step report_start_date report_end_date name user_team_map m =
     (case member_key m of
        None \<Rightarrow> user_team_map
      | Some jira_key \<Rightarrow>
          if jira_key = [] then user_team_map
          else
            (let d_from = (case date_from m of Some d \<Rightarrow> d | None \<Rightarrow> (2000, 1, 1));
                 d_to = (case date_to m of Some d \<Rightarrow> d | None \<Rightarrow> (2099, 12, 31))
             in if d_from \<le> report_end_date \<and> d_to \<ge> report_start_date
                then user_team_map(Some jira_key \<mapsto> name) else user_team_map))"

definition team_step ::
  "(ustr \<Rightarrow> member list response) \<Rightarrow> date \<Rightarrow> date \<Rightarrow> (ustr option \<rightharpoonup> ustr) \<Rightarrow> team
     \<Rightarrow> (ustr option \<rightharpoonup> ustr)" where
  "team_step list_members report_start_date report_end_date user_team_map t =
     (case list_members (team_id t) of
        Ok members \<Rightarrow>
          foldl (member_step report_start_date report_end_date (team_name t)) user_team_map members
      | Failed \<Rightarrow> user_team_map)"

definition get_tempo_teams_assignments ::
  "team list response \<Rightarrow> (ustr \<Rightarrow> member list response) \<Rightarrow> date \<Rightarrow> date
     \<Rightarrow> (ustr option \<rightharpoonup> ustr)" where
  "get_tempo_teams_assignments list_teams list_members report_start_date report_end_date =
     (case list_teams of
        Failed \<Rightarrow> Map.empty
      | Ok all_teams \<Rightarrow>
          foldl (team_step list_members report_start_date report_end_date) Map.empty
            (filter (\<lambda>t. team_pattern_match (team_name t)) all_teams))"

section \<open>The report (\<open>worker_process_file\<close>)\<close>

text \<open>
  Python's floats are modelled by the real numbers, and \<open>round(x, 2)\<close> by rounding to the
  nearest hundredth, a tie going to the even one.
\<close>

definition round2 :: "real \<Rightarrow> real" where
  "round2 x =
     (let f = \<lfloor>x * 100\<rfloor>; d = x * 100 - of_int f
      in of_int (if d < 1 / 2 then f else if d > 1 / 2 then f + 1
                 else if even f then f else f + 1) / 100)"

text \<open>
  The three status texts: a check mark and \<open>OK\<close>; a warning sign and the Russian word for
  divergence; a question mark and the Russian for not found in Jira. The dash is U+2014.
\<close>

definition status_ok :: ustr where
  "status_ok = [9989, 32, 79, 75]"

definition status_variance :: ustr where
  "status_variance =
     [9888, 65039, 32, 1056, 1072, 1089, 1093, 1086, 1078, 1076, 1077, 1085, 1080, 1077]"

definition status_unresolved :: ustr where
  "status_unresolved =
     [10067, 32, 1053, 1077, 32, 1085, 1072, 1081, 1076, 1077, 1085, 32, 1074, 32, 74, 105, 114, 97]"

definition dash :: ustr where
  "dash = [8212]"

record report_row =
  row_team :: ustr
  row_name_1c :: ustr
  row_name_jira :: "ustr option"
  row_jira_key :: "ustr option"
  row_hours_1c :: real
  row_absences :: ustr
  row_hours_tempo :: real
  row_diff :: real
  row_status :: ustr

text \<open>\<open>tempo_agg.get(j_key) or tempo_agg.get(j_login) or 0\<close>: a total of 0 counts as none.\<close>

definition tempo_seconds :: "(ustr option \<rightharpoonup> int) \<Rightarrow> ustr option \<Rightarrow> ustr option \<Rightarrow> int" where
  "tempo_seconds tempo_agg j_key j_login =
     (if get0 tempo_agg j_key \<noteq> 0 then get0 tempo_agg j_key else get0 tempo_agg j_login)"

text \<open>\<open>", ".join(r['absences'])\<close>\<close>

fun join_comma :: "ustr list \<Rightarrow> ustr" where
  "join_comma [] = []"
| "join_comma [x] = x"
| "join_comma (x # y # ys) = x @ [44, 32] @ join_comma (y # ys)"

definition build_row ::
  "(ustr option \<rightharpoonup> ustr) \<Rightarrow> (ustr option \<rightharpoonup> int) \<Rightarrow> employee \<Rightarrow> report_row" where
  "build_row team_mapping tempo_agg r =
     (let t_sec = (case jira_user r of
                     None \<Rightarrow> 0
                   | Some u \<Rightarrow> tempo_seconds tempo_agg (key u) (login u));
          j_name = (case jira_user r of None \<Rightarrow> Some dash | Some u \<Rightarrow> displayName u);
          j_key = (case jira_user r of None \<Rightarrow> Some dash | Some u \<Rightarrow> key u);
          t_name = (case jira_user r of
                      None \<Rightarrow> ascii ''Other''
                    | Some u \<Rightarrow>
                        (case team_mapping (key u) of Some t \<Rightarrow> t | None \<Rightarrow> ascii ''Other''));
          t_hours = round2 (of_int t_sec / 3600);
          diff = round2 (t_hours - hours_1c r);
          status = (if j_name = Some dash then status_unresolved
                    else if \<bar>diff\<bar> > 4 then status_variance else status_ok)
      in \<lparr>row_team = t_name, row_name_1c = name_1c r, row_name_jira = j_name,
          row_jira_key = j_key, row_hours_1c = hours_1c r,
          row_absences = join_comma (absences r), row_hours_tempo = t_hours, row_diff = diff,
          row_status = status\<rparr>)"

text \<open>
  \<open>df.sort_values(by=['SortRank', 'SortNum', 'Team', <the 1C name>])\<close>, where the first two
  columns are the first two components of \<open>get_team_rank\<close> of the team.
\<close>

definition row_sort_key :: "report_row \<Rightarrow> nat \<times> nat \<times> ustr \<times> ustr" where
  "row_sort_key row =
     (fst (get_team_rank (row_team row)), fst (snd (get_team_rank (row_team row))),
      row_team row, row_name_1c row)"

text \<open>
  What the run of one file needs from outside: \<open>float\<close>, numpy's rendering of a row, the
  values of \<open>JIRA_LOOKUP_CACHE\<close>, and the answers of the team and worklog services.
\<close>

record env =
  to_float :: "ustr \<Rightarrow> real option"
  values_str :: "cell list \<Rightarrow> ustr"
  lookup_cache :: "user list"
  list_teams :: "team list response"
  list_members :: "ustr \<Rightarrow> member list response"
  search_worklogs :: "date \<Rightarrow> date \<Rightarrow> ustr option list \<Rightarrow> worklog list response"

text \<open>
  The ways a run ends without a report: the two messages that the code posts and returns
  after (no period of dates found; no surname column found), and the exception that the
  outermost \<open>except\<close> reports.
\<close>

datatype abort = PeriodNotFound | HeaderNotFound | UnexpectedError

definition tempo_totals :: "env \<Rightarrow> date \<Rightarrow> date \<Rightarrow> ustr option list \<Rightarrow> (ustr option \<rightharpoonup> int)" where
  "tempo_totals e start_date end_date keys =
     (if keys = [] then Map.empty
      else aggregate (fetch_tempo_worklogs_for_users (search_worklogs e start_date end_date) keys))"

definition excel_data_of :: "env \<Rightarrow> frame \<Rightarrow> nat \<Rightarrow> nat \<Rightarrow> employee list" where
  "excel_data_of e df header_row_idx name_col_idx =
     extract_records (to_float e) (unique_users (lookup_cache e)) df header_row_idx name_col_idx
       (find_hours_col (to_float e) df) (find_absence_cols df header_row_idx name_col_idx)"

text \<open>
  The run from the frame to the sorted rows of the report. With no record extracted the
  frame of the report has no column \<open>Team\<close>, and \<open>df['Team']\<close> raises.
\<close>

definition worker_process_file :: "env \<Rightarrow> frame \<Rightarrow> abort + report_row list" where
  "worker_process_file e df_raw =
     (case extract_period_from_excel (values_str e) (head20 df_raw) of
        None \<Rightarrow> Inl PeriodNotFound
      | Some (start_date, end_date) \<Rightarrow>
          (case find_header df_raw of
             None \<Rightarrow> Inl HeaderNotFound
           | Some (header_row_idx, name_col_idx) \<Rightarrow>
               (let excel_data = excel_data_of e df_raw header_row_idx name_col_idx;
                    team_mapping =
                      get_tempo_teams_assignments (list_teams e) (list_members e) start_date end_date;
                    tempo_agg = tempo_totals e start_date end_date (target_jira_keys excel_data);
                    report_rows = map (build_row team_mapping tempo_agg) excel_data
                in if report_rows = [] then Inl UnexpectedError
                   else Inr (sort_key row_sort_key report_rows))))"

section \<open>Example inputs\<close>

text \<open>
  A rendering of a row (the cells' texts, each followed by a space) and a \<open>float\<close> that
  reads the unsigned decimal integers, for the examples.
\<close>

definition demo_values_str :: "cell list \<Rightarrow> ustr" where
  "demo_values_str row = concat (map (\<lambda>v. cell_str v @ [32]) row)"

definition demo_to_float :: "ustr \<Rightarrow> real option" where
  "demo_to_float s = (if py_isdigit s then Some (real (py_int s)) else None)"

definition demo_user :: user where
  "demo_user = \<lparr>login = Some (ascii ''ivanov''), key = Some (ascii ''JIRAUSER1''),
                 displayName = Some ivan_ivanov\<rparr>"

definition demo_env :: env where
  "demo_env =
     \<lparr>to_float = demo_to_float, values_str = demo_values_str, lookup_cache = [demo_user],
      list_teams = Failed, list_members = (\<lambda>t. Failed),
      search_worklogs = (\<lambda>s e ws. Failed)\<rparr>"

text \<open>
  A sheet: a title row with the period, a header row (the columns: number, surname, code,
  hours) and one employee in two rows, with the absence codes \<open>OT\<close> and \<open>V\<close> (in
  Cyrillic) and the hours 160 and 152.
\<close>

definition demo_rows :: "cell list list" where
  "demo_rows =
     [[Text (ascii ''01.01.2024 - 31.01.2024''), NaN, NaN, NaN],
      [Text (ascii ''N''), Text [1060, 1072, 1084, 1080, 1083, 1080, 1103],
       Text [1050, 1086, 1076], Text (ascii ''hours'')],
      [Obj (ascii ''1''), Text ivanov_ivan, Text [1054, 1058], Obj (ascii ''160'')],
      [NaN, NaN, Text [1042], Obj (ascii ''152'')]]"

definition demo_sheet :: frame where
  "demo_sheet = frame_of demo_rows"

text \<open>The same sheet with no period in its title, and with no header row.\<close>

definition undated_sheet :: frame where
  "undated_sheet = frame_of (tl demo_rows)"

definition headless_sheet :: frame where
  "headless_sheet = frame_of [demo_rows ! 0, demo_rows ! 2, demo_rows ! 3]"

text \<open>The record of that employee, and environments in which a total was logged for it.\<close>

definition demo_record :: employee where
  "demo_record = \<lparr>name_1c = ivanov_ivan, hours_1c = 160, jira_user = Some demo_user,
                   absences = [[1042], [1054, 1058]]\<rparr>"

definition demo_worklog :: "int \<Rightarrow> worklog" where
  "demo_worklog secs = \<lparr>worker = Some (ascii ''JIRAUSER1''), timeSpentSeconds = Some secs\<rparr>"

definition logged_env :: "int \<Rightarrow> env" where
  "logged_env secs = demo_env\<lparr>search_worklogs := (\<lambda>s e ws. Ok [demo_worklog secs])\<rparr>"

definition demo_row :: "real \<Rightarrow> real \<Rightarrow> ustr \<Rightarrow> report_row" where
  "demo_row t_hours diff status =
     \<lparr>row_team = ascii ''Other'', row_name_1c = ivanov_ivan, row_name_jira = Some ivan_ivanov,
      row_jira_key = Some (ascii ''JIRAUSER1''), row_hours_1c = 160,
      row_absences = [1042, 44, 32, 1054, 1058], row_hours_tempo = t_hours, row_diff = diff,
      row_status = status\<rparr>"

text \<open>
  A sheet whose hours are in column 0, left of the surnames; its second employee has no
  absence code.
\<close>

definition narrow_sheet :: frame where
  "narrow_sheet =
     frame_of
       [[Text (ascii ''01.01.2024 - 31.01.2024''), NaN, NaN],
        [Text (ascii ''hours''), Text [1060, 1072, 1084, 1080, 1083, 1080, 1103],
         Text [1050, 1086, 1076]],
        [Obj (ascii ''160''), Text ivanov_ivan, Text [1054, 1058]],
        [Obj (ascii ''152''), Text petrov_ivan, NaN]]"

definition narrow_record :: employee where
  "narrow_record = \<lparr>name_1c = ivanov_ivan, hours_1c = 0, jira_user = Some demo_user,
                     absences = [[1054, 1058]]\<rparr>"





section \<open>Team rank ordering\<close>









section \<open>Name matching\<close>


lemma name_tokens_empty: "name_tokens [] = []"
  by (simp add: name_tokens_def py_split_def py_replace_def py_lower_def)


lemma tokens_ivanov_ivan:
  "name_tokens ivanov_ivan =
     [[1080, 1074, 1072, 1085, 1086, 1074], [1080, 1074, 1072, 1085]]"
  by (simp add: name_tokens_def ivanov_ivan_def py_split_def py_replace_def py_lower_def
      lower_cp_def is_space_def)

lemma tokens_ivan_ivanov:
  "name_tokens ivan_ivanov =
     [[1080, 1074, 1072, 1085], [1080, 1074, 1072, 1085, 1086, 1074]]"
  by (simp add: name_tokens_def ivan_ivanov_def py_split_def py_replace_def py_lower_def
      lower_cp_def is_space_def)


lemma check_name_match_iff:
  "check_name_match (Some j) e \<longleftrightarrow> set (name_tokens j) \<inter> set (name_tokens e) \<noteq> {}"
  by (auto simp: check_name_match_def name_tokens_empty)



section \<open>Worklog batches and totals\<close>

lemma chunks25_slices: "chunks25 xs = slices 24 xs"
  by (simp add: chunks25_def slices_def o_def)

lemma slice_index:
  assumes "k < (n + p) div Suc p"
  shows "Suc p * k < n"
proof -
  from assms have "Suc k \<le> (n + p) div Suc p"
    by (rule Suc_leI)
  then have "Suc k * Suc p \<le> n + p"
    by (simp only: less_eq_div_iff_mult_less_eq [OF zero_less_Suc])
  then show ?thesis by (simp add: mult.commute)
qed

lemma slice_count:
  assumes "0 < (n::nat)"
  shows "(n + p) div Suc p = Suc ((n - Suc p + p) div Suc p)"
proof (cases "Suc p \<le> n")
  case True
  then have "n + p = (n - Suc p + p) + Suc p" by simp
  then have "(n + p) div Suc p = ((n - Suc p + p) + Suc p) div Suc p" by (rule arg_cong)
  also have "\<dots> = Suc ((n - Suc p + p) div Suc p)"
    using div_add_self2 [of "Suc p" "n - Suc p + p"] by simp
  finally show ?thesis .
next
  case False
  then have a: "n - Suc p + p = p" by simp
  from False assms have b: "n + p = (n - 1) + Suc p" and c: "n - 1 < Suc p" by simp_all
  have "(n + p) div Suc p = Suc ((n - 1) div Suc p)"
    unfolding b using div_add_self2 [of "Suc p" "n - 1"] by simp
  with c show ?thesis unfolding a by (simp only: div_less lessI)
qed

lemma slices_Nil: "slices p [] = []"
  by (simp add: slices_def)

lemma slices_rec:
  assumes "xs \<noteq> []"
  shows "slices p xs = take (Suc p) xs # slices p (drop (Suc p) xs)"
proof -
  let ?M = "(length (drop (Suc p) xs) + p) div Suc p"
  from assms have n: "0 < length xs" by simp
  have N: "(length xs + p) div Suc p = Suc ?M"
    using slice_count [OF n, of p] by (simp only: length_drop)
  have upt: "[0..<Suc ?M] = 0 # map Suc [0..<?M]"
  proof -
    have "[0..<Suc ?M] = 0 # [Suc 0..<Suc ?M]"
      by (rule upt_conv_Cons) (rule zero_less_Suc)
    then show ?thesis
      by (simp only: map_Suc_upt)
  qed
  have dr: "drop (Suc p * Suc k) xs = drop (Suc p * k) (drop (Suc p) xs)" for k
    by (simp add: add.commute)
  have "slices p xs = map (\<lambda>k. take (Suc p) (drop (Suc p * k) xs)) [0..<Suc ?M]"
    unfolding slices_def N ..
  also have "\<dots> = take (Suc p) xs # map (\<lambda>k. take (Suc p) (drop (Suc p * Suc k) xs)) [0..<?M]"
    unfolding upt by (simp add: o_def ac_simps del: upt_Suc)
  also have "\<dots> = take (Suc p) xs # slices p (drop (Suc p) xs)"
    unfolding dr slices_def ..
  finally show ?thesis .
qed

lemma concat_slices: "concat (slices p xs) = xs"
proof (induction xs rule: length_induct)
  case (1 xs)
  show ?case
  proof (cases "xs = []")
    case True
    then show ?thesis by (simp add: slices_Nil)
  next
    case False
    then have "length (drop (Suc p) xs) < length xs" by simp
    with 1 have "concat (slices p (drop (Suc p) xs)) = drop (Suc p) xs" by blast
    with False show ?thesis by (simp add: slices_rec)
  qed
qed

lemma slices_sizes:
  assumes "c \<in> set (slices p xs)"
  shows "1 \<le> length c \<and> length c \<le> Suc p"
proof -
  from assms obtain k where k: "k < (length xs + p) div Suc p"
    and c: "c = take (Suc p) (drop (Suc p * k) xs)"
    unfolding slices_def by (auto simp del: upt_Suc)
  from k have "Suc p * k < length xs" by (rule slice_index)
  with c show ?thesis by simp
qed

lemma concat_chunks25: "concat (chunks25 xs) = xs"
  by (simp only: chunks25_slices concat_slices)

lemma chunks25_sizes:
  assumes "c \<in> set (chunks25 xs)"
  shows "1 \<le> length c \<and> length c \<le> 25"
  using slices_sizes [of c 24 xs] assms by (simp add: chunks25_slices)

lemma chunks25_60:
  assumes "length xs = 60"
  shows "map length (chunks25 xs) = [25, 25, 10]"
proof -
  have "[0..<(60 + 24) div 25] = [0, 1, 2::nat]"
    by (simp add: upt_rec)
  then show ?thesis
    using assms by (simp add: chunks25_def)
qed

lemma foldl_fetch_step:
  "foldl (fetch_step post) st cs = (fst st @ cs, snd st @ concat (map (results_of post) cs))"
  by (induction cs arbitrary: st) (auto simp: fetch_step_def results_of_def split: response.splits)

lemma fetch_trace_eq:
  "fetch_trace post ws = (chunks25 ws, concat (map (results_of post) (chunks25 ws)))"
  by (simp add: fetch_trace_def foldl_fetch_step)

lemma agg_step_apply:
  "agg_step m l w = (if w = worker l then Some (get0 m w + seconds_of l) else m w)"
  by (simp add: agg_step_def)

lemma get0_agg_step:
  "get0 (agg_step m l) w = (if w = worker l then get0 m w + seconds_of l else get0 m w)"
  by (simp add: get0_def agg_step_apply)

lemma foldl_agg_step:
  "foldl agg_step m logs w =
     (if w \<in> worker ` set logs
      then Some (get0 m w + sum_list (map seconds_of (filter (\<lambda>l. worker l = w) logs)))
      else m w)"
proof (induction logs arbitrary: m)
  case Nil
  show ?case by simp
next
  case (Cons l logs)
  have none: "v \<notin> worker ` set logs \<Longrightarrow> filter (\<lambda>l. worker l = v) logs = []" for v
    by (auto simp: filter_empty_conv)
  have E: "foldl agg_step (agg_step m l) logs w =
     (if w \<in> worker ` set logs
      then Some (get0 (agg_step m l) w
                 + sum_list (map seconds_of (filter (\<lambda>l. worker l = w) logs)))
      else agg_step m l w)"
    by (rule Cons.IH)
  show ?case
    apply (simp only: foldl_Cons E)
    apply (simp add: get0_agg_step agg_step_apply none)
    done
qed

lemma aggregate_eq:
  "aggregate logs w =
     (if w \<in> worker ` set logs
      then Some (sum_list (map seconds_of (filter (\<lambda>l. worker l = w) logs)))
      else None)"
  by (simp add: aggregate_def foldl_agg_step get0_def)

text \<open>
  C5: the worklog fetch posts one request per batch, in order; the batches are consecutive
  slices of the worker list, each of at least 1 and at most 25 identifiers, and together
  they are the list; 60 identifiers give exactly the three requests of sizes 25, 25 and 10;
  and the total of a worker is the sum of \<open>timeSpentSeconds\<close> over all entries that name
  it in the answers to all batches.
\<close>

theorem C5_worklog_batches:
  "fst (fetch_trace post ws) = chunks25 ws
   \<and> concat (chunks25 ws) = ws
   \<and> (\<forall>c \<in> set (chunks25 ws). 1 \<le> length c \<and> length c \<le> 25)
   \<and> (length ws = 60 \<longrightarrow> map length (fst (fetch_trace post ws)) = [25, 25, 10])
   \<and> fetch_tempo_worklogs_for_users post ws = concat (map (results_of post) (chunks25 ws))
   \<and> aggregate (fetch_tempo_worklogs_for_users post ws) w =
       (if w \<in> worker ` set (concat (map (results_of post) (chunks25 ws)))
        then Some (sum_list (map seconds_of
               (filter (\<lambda>l. worker l = w) (concat (map (results_of post) (chunks25 ws))))))
        else None)"
proof (intro conjI)
  show "fst (fetch_trace post ws) = chunks25 ws"
    by (simp add: fetch_trace_eq)
  show "concat (chunks25 ws) = ws"
    by (rule concat_chunks25)
  show "\<forall>c \<in> set (chunks25 ws). 1 \<le> length c \<and> length c \<le> 25"
    using chunks25_sizes by blast
  show "length ws = 60 \<longrightarrow> map length (fst (fetch_trace post ws)) = [25, 25, 10]"
    by (simp add: fetch_trace_eq chunks25_60)
  show "fetch_tempo_worklogs_for_users post ws = concat (map (results_of post) (chunks25 ws))"
    by (simp add: fetch_tempo_worklogs_for_users_def fetch_trace_eq)
  then show "aggregate (fetch_tempo_worklogs_for_users post ws) w =
       (if w \<in> worker ` set (concat (map (results_of post) (chunks25 ws)))
        then Some (sum_list (map seconds_of
               (filter (\<lambda>l. worker l = w) (concat (map (results_of post) (chunks25 ws))))))
        else None)"
    by (simp only: aggregate_eq)
qed

theorem C5_worklog_batches_witness:
  "length [0..<60] = 60
   \<and> chunks25 [0..<60] = [[0..<25], [25..<50], [50..<60]]
   \<and> [50..<60] \<in> set (chunks25 [0..<60])
   \<and> 1 \<le> length [50..<60] \<and> length [50..<60] \<le> 25
   \<and> map length (fst (fetch_trace (\<lambda>c. Failed) [0..<60])) = [25, 25, 10]"
proof -
  have ch: "chunks25 [0..<60] = [[0..<25], [25..<50], [50..<60]]"
  proof -
    have "[0..<(60 + 24) div 25] = [0, 1, 2::nat]"
      by (simp add: upt_rec)
    then show ?thesis
      by (simp add: chunks25_def)
  qed
  have mem: "[50..<60] \<in> set (chunks25 [0..<60])"
    by (simp only: ch) simp
  have len: "length [0..<60] = 60"
    by simp
  from C5_worklog_batches [of "\<lambda>c. Failed" "[0..<60]" None] mem len
  have "1 \<le> length [50..<60] \<and> length [50..<60] \<le> 25
        \<and> map length (fst (fetch_trace (\<lambda>c. Failed) [0..<60])) = [25, 25, 10]"
    by blast
  with ch mem len show ?thesis
    by blast
qed

section \<open>The reporting period\<close>

lemma fold_min_Min: "fold min ds (d::date) = Min (set (d # ds))"
  by (rule Min.set_eq_fold [symmetric])

lemma fold_max_Max: "fold max ds (d::date) = Max (set (d # ds))"
  by (rule Max.set_eq_fold [symmetric])

lemma extract_period_eq:
  "extract_period_from_excel vs rows =
     (if 2 \<le> length (found_dates vs rows)
      then Some (Min (set (found_dates vs rows)), Max (set (found_dates vs rows))) else None)"
proof (cases "found_dates vs rows")
  case Nil
  then show ?thesis by (simp add: extract_period_from_excel_def)
next
  case (Cons d1 ds1)
  show ?thesis
  proof (cases ds1)
    case Nil
    with Cons show ?thesis by (simp add: extract_period_from_excel_def)
  next
    case (Cons d2 ds)
    have "fold min (d2 # ds) d1 = Min (set (d1 # d2 # ds))"
      by (rule fold_min_Min)
    moreover have "fold max (d2 # ds) d1 = Max (set (d1 # d2 # ds))"
      by (rule fold_max_Max)
    ultimately show ?thesis
      using \<open>found_dates vs rows = d1 # ds1\<close> Cons
      by (simp add: extract_period_from_excel_def)
  qed
qed

lemma period_abort_iff:
  "worker_process_file e df = Inl PeriodNotFound \<longleftrightarrow>
     extract_period_from_excel (values_str e) (head20 df) = None"
  by (auto simp: worker_process_file_def Let_def split: option.splits prod.splits)

lemma head20_agree:
  assumes "ncols df = ncols df'" and "min 20 (nrows df) = min 20 (nrows df')"
    and "\<forall>r < 20. \<forall>c < ncols df. iloc df r c = iloc df' r c"
  shows "head20 df = head20 df'"
proof -
  have "row_values df r = row_values df' r" if "r < 20" for r
    using that assms(1,3) by (simp add: row_values_def)
  then show ?thesis
    using assms(2) by (simp add: head20_def)
qed

lemma demo_head: "head20 demo_sheet = demo_rows"
  by code_simp

lemma demo_dates:
  "found_dates demo_values_str demo_rows = [(2024, 1, 1), (2024, 1, 31)]"
  by code_simp

lemma undated_dates: "found_dates demo_values_str (head20 undated_sheet) = []"
  by code_simp

text \<open>
  C9: the period is read from the first 20 rows only (two frames that agree there give the
  same period); it is the least and the greatest of the dates found there, a date being a
  match of \<open>dd.mm.yyyy\<close> that \<open>strptime\<close> accepts, when at least two are found; and the
  run ends with the message that no period was found exactly when fewer than two are
  found, whatever the rest of the sheet holds. (That the spec's list of errors has no such
  entry is a remark on the spec, not on the code.)
\<close>

theorem C9_period:
  "extract_period_from_excel (values_str e) (head20 df) =
     (if 2 \<le> length (found_dates (values_str e) (head20 df))
      then Some (Min (set (found_dates (values_str e) (head20 df))),
                 Max (set (found_dates (values_str e) (head20 df))))
      else None)
   \<and> (length (found_dates (values_str e) (head20 df)) < 2
        \<longleftrightarrow> worker_process_file e df = Inl PeriodNotFound)
   \<and> (ncols df = ncols df' \<and> min 20 (nrows df) = min 20 (nrows df')
        \<and> (\<forall>r < 20. \<forall>c < ncols df. iloc df r c = iloc df' r c)
        \<longrightarrow> extract_period_from_excel (values_str e) (head20 df)
            = extract_period_from_excel (values_str e) (head20 df'))"
proof (intro conjI)
  show "extract_period_from_excel (values_str e) (head20 df) =
     (if 2 \<le> length (found_dates (values_str e) (head20 df))
      then Some (Min (set (found_dates (values_str e) (head20 df))),
                 Max (set (found_dates (values_str e) (head20 df))))
      else None)"
    by (rule extract_period_eq)
  show "length (found_dates (values_str e) (head20 df)) < 2
        \<longleftrightarrow> worker_process_file e df = Inl PeriodNotFound"
    unfolding period_abort_iff extract_period_eq by auto
  show "ncols df = ncols df' \<and> min 20 (nrows df) = min 20 (nrows df')
        \<and> (\<forall>r < 20. \<forall>c < ncols df. iloc df r c = iloc df' r c)
        \<longrightarrow> extract_period_from_excel (values_str e) (head20 df)
            = extract_period_from_excel (values_str e) (head20 df')"
    using head20_agree [of df df'] by auto
qed

theorem C9_period_witness:
  "extract_period_from_excel demo_values_str (head20 demo_sheet) = Some ((2024, 1, 1), (2024, 1, 31))
   \<and> length (found_dates demo_values_str (head20 undated_sheet)) < 2
   \<and> worker_process_file demo_env undated_sheet = Inl PeriodNotFound
   \<and> extract_period_from_excel demo_values_str
        (head20 (demo_sheet\<lparr>cells := (\<lambda>r c. if r < 20 then cells demo_sheet r c else Text [])\<rparr>))
      = Some ((2024, 1, 1), (2024, 1, 31))"
proof -
  let ?df' = "demo_sheet\<lparr>cells := (\<lambda>r c. if r < 20 then cells demo_sheet r c else Text [])\<rparr>"
  have vs: "values_str demo_env = demo_values_str"
    by (simp add: demo_env_def)
  have mm: "Min {(2024, 1, 1), (2024, 1, 31)} = ((2024, 1, 1) :: date)"
    "Max {(2024, 1, 1), (2024, 1, 31)} = ((2024, 1, 31) :: date)"
    by simp_all
  have p: "extract_period_from_excel demo_values_str (head20 demo_sheet)
           = Some ((2024, 1, 1), (2024, 1, 31))"
    using C9_period [of demo_env demo_sheet demo_sheet, THEN conjunct1]
    by (simp add: vs demo_head demo_dates mm)
  have u: "length (found_dates demo_values_str (head20 undated_sheet)) < 2"
    by (simp add: undated_dates)
  have a: "worker_process_file demo_env undated_sheet = Inl PeriodNotFound"
    using C9_period [of demo_env undated_sheet undated_sheet, THEN conjunct2, THEN conjunct1]
    by (simp add: vs undated_dates)
  have h: "ncols demo_sheet = ncols ?df' \<and> min 20 (nrows demo_sheet) = min 20 (nrows ?df')
        \<and> (\<forall>r < 20. \<forall>c < ncols demo_sheet. iloc demo_sheet r c = iloc ?df' r c)"
    by (simp add: iloc_def)
  have "extract_period_from_excel (values_str demo_env) (head20 demo_sheet)
        = extract_period_from_excel (values_str demo_env) (head20 ?df')"
    by (rule C9_period [of demo_env demo_sheet ?df', THEN conjunct2, THEN conjunct2, THEN mp, OF h])
  with p have "extract_period_from_excel demo_values_str (head20 ?df')
               = Some ((2024, 1, 1), (2024, 1, 31))"
    by (simp only: vs)
  with p u a show ?thesis
    by (intro conjI)
qed

section \<open>The header scan\<close>

lemma first_some_None_iff:
  "first_some f xs = None \<longleftrightarrow> (\<forall>x \<in> set xs. f x = None)"
  by (induction xs) (auto split: option.splits)

lemma first_some_Some_iff:
  "first_some f xs = Some y \<longleftrightarrow>
     (\<exists>i < length xs. f (xs ! i) = Some y \<and> (\<forall>j < i. f (xs ! j) = None))"
proof (induction xs)
  case Nil
  show ?case by simp
next
  case (Cons x xs)
  show ?case
  proof (cases "f x")
    case None
    have "(\<exists>i < length (x # xs). f ((x # xs) ! i) = Some y \<and> (\<forall>j < i. f ((x # xs) ! j) = None))
          \<longleftrightarrow> (\<exists>i < length xs. f (xs ! i) = Some y \<and> (\<forall>j < i. f (xs ! j) = None))"
      (is "?L \<longleftrightarrow> ?R")
    proof
      assume ?L
      then obtain i where i: "i < length (x # xs)" "f ((x # xs) ! i) = Some y"
        "\<forall>j < i. f ((x # xs) ! j) = None" by blast
      with None obtain i' where i': "i = Suc i'" by (cases i) auto
      with i have "i' < length xs" "f (xs ! i') = Some y" by auto
      moreover have "\<forall>j < i'. f (xs ! j) = None"
      proof (intro allI impI)
        fix j assume "j < i'"
        with i(3) i' have "f ((x # xs) ! Suc j) = None" by auto
        then show "f (xs ! j) = None" by simp
      qed
      ultimately show ?R by blast
    next
      assume ?R
      then obtain i where i: "i < length xs" "f (xs ! i) = Some y" "\<forall>j < i. f (xs ! j) = None"
        by blast
      have "\<forall>j < Suc i. f ((x # xs) ! j) = None"
      proof (intro allI impI)
        fix j assume "j < Suc i"
        with None i(3) show "f ((x # xs) ! j) = None" by (cases j) auto
      qed
      with i(1,2) show ?L by (intro exI [of _ "Suc i"]) auto
    qed
    with None Cons.IH show ?thesis by simp
  next
    case (Some z)
    have "(\<exists>i < length (x # xs). f ((x # xs) ! i) = Some y \<and> (\<forall>j < i. f ((x # xs) ! j) = None))
          \<longleftrightarrow> z = y" (is "?L \<longleftrightarrow> _")
    proof
      assume ?L
      then obtain i where i: "f ((x # xs) ! i) = Some y" "\<forall>j < i. f ((x # xs) ! j) = None"
        by blast
      with Some have "i = 0" by (cases i) auto
      with i Some show "z = y" by simp
    next
      assume "z = y"
      with Some show ?L by (intro exI [of _ 0]) auto
    qed
    with Some show ?thesis by simp
  qed
qed

lemma find_upt_Some_iff:
  "find P [0..<n] = Some c \<longleftrightarrow> c < n \<and> P c \<and> (\<forall>j < c. \<not> P j)"
  by (auto simp: find_Some_iff)

lemma find_upt_None_iff:
  "find P [0..<n] = None \<longleftrightarrow> (\<forall>c < n. \<not> P c)"
  by (auto simp: find_None_iff)

lemma find_header_None_iff:
  "find_header df = None \<longleftrightarrow>
     (\<forall>r < nrows df. \<forall>c < ncols df. \<not> is_surname_cell (iloc df r c))"
  by (auto simp: find_header_def first_some_None_iff find_upt_None_iff)

lemma find_header_Some_iff:
  "find_header df = Some (r, c) \<longleftrightarrow>
     r < nrows df \<and> c < ncols df \<and> is_surname_cell (iloc df r c)
     \<and> (\<forall>c' < c. \<not> is_surname_cell (iloc df r c'))
     \<and> (\<forall>r' < r. \<forall>c' < ncols df. \<not> is_surname_cell (iloc df r' c'))"
  (is "?L \<longleftrightarrow> ?R")
proof
  assume ?L
  then obtain i where i: "i < nrows df"
    "map_option (Pair i) (find (\<lambda>c. is_surname_cell (iloc df i c)) [0..<ncols df]) = Some (r, c)"
    "\<forall>j < i. map_option (Pair j) (find (\<lambda>c. is_surname_cell (iloc df j c)) [0..<ncols df]) = None"
    unfolding find_header_def first_some_Some_iff by auto
  from i(2) have ri: "i = r" and f: "find (\<lambda>c. is_surname_cell (iloc df r c)) [0..<ncols df] = Some c"
    by auto
  from i(3) ri have "\<forall>j < r. find (\<lambda>c. is_surname_cell (iloc df j c)) [0..<ncols df] = None"
    by auto
  with i(1) ri f show ?R
    by (auto simp: find_upt_Some_iff find_upt_None_iff)
next
  assume R: ?R
  then have f: "find (\<lambda>c. is_surname_cell (iloc df r c)) [0..<ncols df] = Some c"
    by (auto simp: find_upt_Some_iff)
  from R have n: "\<forall>j < r. find (\<lambda>c. is_surname_cell (iloc df j c)) [0..<ncols df] = None"
    by (auto simp: find_upt_None_iff)
  from R have "r < nrows df" by simp
  with f n show ?L
    unfolding find_header_def first_some_Some_iff
    by (intro exI [of _ r]) auto
qed

lemma demo_header: "find_header demo_sheet = Some (1, 1)"
  by code_simp

lemma headless_header: "find_header headless_sheet = None"
  by code_simp

lemma headless_dates:
  "found_dates demo_values_str (head20 headless_sheet) = [(2024, 1, 1), (2024, 1, 31)]"
  by code_simp

text \<open>
  C7: the header scan finds nothing exactly when no cell of the sheet has a text that, in
  lower case, starts with the surname word; the run then ends without a report, with the
  message that the surname column was not found (or, when the period is missing too, with
  the message of that earlier check). Otherwise the scan returns the first such cell in
  row-major order as \<open>(header_row_idx, name_col_idx)\<close>.
\<close>

theorem C7_header:
  "(find_header df = None
      \<longleftrightarrow> (\<forall>r < nrows df. \<forall>c < ncols df. \<not> is_surname_cell (iloc df r c)))
   \<and> (find_header df = None \<longrightarrow>
        worker_process_file e df =
          (if extract_period_from_excel (values_str e) (head20 df) = None
           then Inl PeriodNotFound else Inl HeaderNotFound))
   \<and> (find_header df = Some (r, c) \<longleftrightarrow>
        r < nrows df \<and> c < ncols df \<and> is_surname_cell (iloc df r c)
        \<and> (\<forall>c' < c. \<not> is_surname_cell (iloc df r c'))
        \<and> (\<forall>r' < r. \<forall>c' < ncols df. \<not> is_surname_cell (iloc df r' c')))
   \<and> (worker_process_file e df = Inl HeaderNotFound \<longrightarrow> find_header df = None)"
proof (intro conjI)
  show "find_header df = None
      \<longleftrightarrow> (\<forall>r < nrows df. \<forall>c < ncols df. \<not> is_surname_cell (iloc df r c))"
    by (rule find_header_None_iff)
  show "find_header df = None \<longrightarrow>
        worker_process_file e df =
          (if extract_period_from_excel (values_str e) (head20 df) = None
           then Inl PeriodNotFound else Inl HeaderNotFound)"
    by (auto simp: worker_process_file_def split: option.splits)
  show "find_header df = Some (r, c) \<longleftrightarrow>
        r < nrows df \<and> c < ncols df \<and> is_surname_cell (iloc df r c)
        \<and> (\<forall>c' < c. \<not> is_surname_cell (iloc df r c'))
        \<and> (\<forall>r' < r. \<forall>c' < ncols df. \<not> is_surname_cell (iloc df r' c'))"
    by (rule find_header_Some_iff)
  show "worker_process_file e df = Inl HeaderNotFound \<longrightarrow> find_header df = None"
    by (auto simp: worker_process_file_def Let_def split: option.splits prod.splits if_splits)
qed

theorem C7_header_witness:
  "find_header headless_sheet = None
   \<and> worker_process_file demo_env headless_sheet = Inl HeaderNotFound
   \<and> find_header demo_sheet = Some (1, 1)
   \<and> is_surname_cell (iloc demo_sheet 1 1)
   \<and> \<not> is_surname_cell (iloc demo_sheet 1 0)
   \<and> \<not> is_surname_cell (iloc demo_sheet 0 3)"
proof -
  have vs: "values_str demo_env = demo_values_str"
    by (simp add: demo_env_def)
  have p: "extract_period_from_excel demo_values_str (head20 headless_sheet) \<noteq> None"
    by (simp add: extract_period_eq headless_dates)
  have "worker_process_file demo_env headless_sheet =
          (if extract_period_from_excel (values_str demo_env) (head20 headless_sheet) = None
           then Inl PeriodNotFound else Inl HeaderNotFound)"
    by (rule C7_header [of headless_sheet demo_env 0 0, THEN conjunct2, THEN conjunct1, THEN mp,
          OF headless_header])
  with p have a: "worker_process_file demo_env headless_sheet = Inl HeaderNotFound"
    by (simp only: vs if_False)
  have n: "ncols demo_sheet = 4"
    by code_simp
  have "1 < nrows demo_sheet \<and> 1 < ncols demo_sheet \<and> is_surname_cell (iloc demo_sheet 1 1)
        \<and> (\<forall>c' < 1. \<not> is_surname_cell (iloc demo_sheet 1 c'))
        \<and> (\<forall>r' < 1. \<forall>c' < ncols demo_sheet. \<not> is_surname_cell (iloc demo_sheet r' c'))"
    by (rule C7_header [of demo_sheet demo_env 1 1, THEN conjunct2, THEN conjunct2,
          THEN conjunct1, THEN iffD1, OF demo_header])
  then have "is_surname_cell (iloc demo_sheet 1 1) \<and> \<not> is_surname_cell (iloc demo_sheet 1 0)
        \<and> \<not> is_surname_cell (iloc demo_sheet 0 3)"
    unfolding n by auto
  with headless_header a demo_header show ?thesis
    by (intro conjI) auto
qed

section \<open>The rows of the report\<close>

lemma name_tokens_dash: "name_tokens dash = []"
  by code_simp

lemma check_name_match_dash: "\<not> check_name_match (Some dash) e"
  by (simp add: check_name_match_iff name_tokens_dash)

lemma status_distinct:
  "status_ok \<noteq> status_variance" "status_ok \<noteq> status_unresolved"
  "status_variance \<noteq> status_unresolved"
  by (simp_all add: status_ok_def status_variance_def status_unresolved_def)

lemma round2_0: "round2 0 = 0"
  by (simp add: round2_def)

lemma set_map_filter_eq: "set (List.map_filter f xs) = {y. \<exists>x \<in> set xs. f x = Some y}"
  by (induction xs) (auto simp: List.map_filter_simps split: option.splits)

lemma extract_records_mem:
  "r \<in> set (extract_records pf users df hr nc hc acs) \<longleftrightarrow>
     (\<exists>i. Suc hr \<le> i \<and> i < nrows df \<and> extract_row pf users df nc hc acs i = Some r)"
  by (auto simp: extract_records_def set_map_filter_eq)

lemma extract_row_fields:
  assumes "extract_row pf users df nc hc acs i = Some r"
  shows "name_1c r = clean_name_of (cell_str (iloc df i nc))"
    and "hours_1c r = fst (scan_block pf df hc acs i)"
    and "absences r = sort (snd (scan_block pf df hc acs i))"
    and "jira_user r = find (\<lambda>u. check_name_match (displayName u) (name_1c r)) users"
    and "0 < fst (scan_block pf df hc acs i) \<or> snd (scan_block pf df hc acs i) \<noteq> []"
  using assms by (auto simp: extract_row_def Let_def split: if_splits)

lemma extract_row_user:
  assumes "extract_row pf users df nc hc acs i = Some r" and "jira_user r = Some u"
  shows "check_name_match (displayName u) (name_1c r) \<and> u \<in> set users"
proof -
  from extract_row_fields(4) [OF assms(1)] assms(2)
  have "find (\<lambda>u. check_name_match (displayName u) (name_1c r)) users = Some u" by simp
  then show ?thesis by (auto simp: find_Some_iff)
qed

lemma extract_records_user:
  assumes "r \<in> set (extract_records pf users df hr nc hc acs)" and "jira_user r = Some u"
  shows "displayName u \<noteq> Some dash"
proof -
  from assms(1) obtain i where "extract_row pf users df nc hc acs i = Some r"
    by (auto simp: extract_records_mem)
  from extract_row_user [OF this assms(2)] show ?thesis
    using check_name_match_dash by auto
qed

lemma build_row_unresolved:
  assumes "jira_user r = None"
  shows "row_hours_tempo (build_row tm agg r) = 0"
    and "row_team (build_row tm agg r) = ascii ''Other''"
    and "row_status (build_row tm agg r) = status_unresolved"
  using assms by (simp_all add: build_row_def Let_def round2_0)

lemma build_row_status_cases:
  "row_status (build_row tm agg r) = status_ok
   \<or> row_status (build_row tm agg r) = status_variance
   \<or> row_status (build_row tm agg r) = status_unresolved"
  by (simp add: build_row_def Let_def)



lemma build_row_unresolved_iff:
  "row_status (build_row tm agg r) = status_unresolved \<longleftrightarrow>
     (case jira_user r of None \<Rightarrow> True | Some u \<Rightarrow> displayName u = Some dash)"
  using status_distinct by (auto simp: build_row_def Let_def split: option.splits)

lemma report_rows:
  assumes "worker_process_file e df = Inr rows"
  shows "\<exists>hr nc tm agg. find_header df = Some (hr, nc)
           \<and> set rows = build_row tm agg ` set (excel_data_of e df hr nc)"
  using assms
  by (auto simp: worker_process_file_def Let_def split: option.splits prod.splits if_splits) blast

lemma demo_shape: "nrows demo_sheet = 4" "ncols demo_sheet = 4"
  by (simp_all add: demo_sheet_def frame_of_def demo_rows_def)

lemma demo_cells:
  "iloc demo_sheet 2 1 = Text ivanov_ivan"
  "iloc demo_sheet 2 (Suc 0) = Text ivanov_ivan"
  "iloc demo_sheet 3 (Suc 0) = NaN"
  "iloc demo_sheet 2 2 = Text [1054, 1058]"
  "iloc demo_sheet 2 3 = Obj (ascii ''160'')"
  "iloc demo_sheet 3 1 = NaN"
  "iloc demo_sheet 3 2 = Text [1042]"
  "iloc demo_sheet 3 3 = Obj (ascii ''152'')"
  by (simp_all add: iloc_def demo_sheet_def frame_of_def demo_rows_def)

lemma demo_floats:
  "demo_to_float (ascii ''160'') = Some 160" "demo_to_float (ascii ''152'') = Some 152"
  by (simp_all add: demo_to_float_def py_isdigit_def is_digit_def py_int_def ascii_def)

lemma demo_codes:
  "is_absence_code [1054, 1058]" "is_absence_code [1042]"
  by (simp_all add: is_absence_code_def py_isdigit_def is_digit_def py_upper_def upper_cp_def)

lemma demo_scan:
  "scan_block demo_to_float demo_sheet (Some 3) [2] 2 = (160, [[1042], [1054, 1058]])"
proof -
  have b: "block_rows demo_sheet 2 = [2, 3]"
    by (simp add: block_rows_def demo_shape upt_rec)
  have s: "py_strip [1054, 1058] = [1054, 1058]" "py_strip [1042] = [1042]"
    by (simp_all add: py_strip_def is_space_def)
  have f: "filter (\<lambda>x. x \<noteq> 32) (py_replace 44 46 (ascii ''160'')) = ascii ''160''"
    "filter (\<lambda>x. x \<noteq> 32) (py_replace 44 46 (ascii ''152'')) = ascii ''152''"
    by (simp_all add: py_replace_def ascii_def)
  show ?thesis
    by (simp add: scan_block_def b block_step_def hours_step_def absence_step_def demo_cells
        notna_def s f demo_floats demo_codes)
qed

lemma demo_clean: "clean_name_of ivanov_ivan = ivanov_ivan"
  by (simp add: clean_name_of_def ivanov_ivan_def py_strip_def is_space_def)

lemma demo_row2:
  "extract_row demo_to_float [demo_user] demo_sheet 1 (Some 3) [2] 2 = Some demo_record"
proof -
  have l: "\<not> list_ex (contains (py_lower ivanov_ivan)) skip_labels"
    by (simp add: skip_labels_def ivanov_ivan_def py_lower_def lower_cp_def)
  have m: "check_name_match (Some ivan_ivanov) ivanov_ivan"
    by (simp add: check_name_match_iff tokens_ivan_ivanov tokens_ivanov_ivan)
  have n: "2 \<le> length ivanov_ivan"
    by (simp add: ivanov_ivan_def)
  show ?thesis
    using l m n
    by (simp add: extract_row_def demo_cells notna_def demo_scan demo_clean demo_record_def
        demo_user_def)
qed

lemma demo_row3:
  "extract_row demo_to_float [demo_user] demo_sheet 1 (Some 3) [2] 3 = None"
  by (simp add: extract_row_def demo_cells notna_def)

lemma demo_hours_col: "find_hours_col demo_to_float demo_sheet = Some 3"
proof -
  have r: "rev [0..<4] = [3, 2, 1, 0::nat]"
    by (simp add: upt_rec)
  have f: "py_replace 44 46 (ascii ''160'') = ascii ''160''"
    by (simp add: py_replace_def ascii_def)
  show ?thesis
    by (simp add: find_hours_col_def demo_shape r demo_cells notna_def f demo_floats)
qed

lemma demo_absence_cols: "find_absence_cols demo_sheet 1 1 = [2]"
  by code_simp

lemma demo_excel_data: "excel_data_of demo_env demo_sheet 1 1 = [demo_record]"
proof -
  have e: "to_float demo_env = demo_to_float" "lookup_cache demo_env = [demo_user]"
    by (simp_all add: demo_env_def)
  have u: "unique_users [demo_user] = [demo_user]"
    by (simp add: unique_users_def)
  have r: "[Suc 1..<4] = [2, 3]"
    by (simp add: upt_rec)
  show ?thesis
    unfolding excel_data_of_def e u demo_hours_col demo_absence_cols extract_records_def
      demo_shape r
    by (simp add: List.map_filter_simps demo_row2 demo_row3 del: One_nat_def)
qed

lemma run_eq:
  assumes "extract_period_from_excel (values_str e) (head20 df) = Some (s, en)"
    and "find_header df = Some (hr, nc)"
    and "excel_data_of e df hr nc = xs" and "xs \<noteq> []"
  shows "worker_process_file e df =
           Inr (sort_key row_sort_key
                 (map (build_row
                         (get_tempo_teams_assignments (list_teams e) (list_members e) s en)
                         (tempo_totals e s en (target_jira_keys xs))) xs))"
  using assms by (simp add: worker_process_file_def Let_def)

lemma demo_period:
  "extract_period_from_excel demo_values_str (head20 demo_sheet) = Some ((2024, 1, 1), (2024, 1, 31))"
proof -
  have "Min {(2024, 1, 1), (2024, 1, 31)} = ((2024, 1, 1) :: date)"
    "Max {(2024, 1, 1), (2024, 1, 31)} = ((2024, 1, 31) :: date)"
    by simp_all
  then show ?thesis
    by (simp add: extract_period_eq demo_head demo_dates)
qed

lemma logged_env_fields:
  "values_str (logged_env secs) = demo_values_str"
  "list_teams (logged_env secs) = Failed"
  "to_float (logged_env secs) = demo_to_float"
  "lookup_cache (logged_env secs) = [demo_user]"
  "search_worklogs (logged_env secs) s en ws = Ok [demo_worklog secs]"
  by (simp_all add: logged_env_def demo_env_def)

lemma logged_excel_data: "excel_data_of (logged_env secs) demo_sheet 1 1 = [demo_record]"
  using demo_excel_data
  by (simp add: excel_data_of_def logged_env_def demo_env_def del: One_nat_def)

lemma demo_keys: "target_jira_keys [demo_record] = [Some (ascii ''JIRAUSER1'')]"
  by (simp add: target_jira_keys_def List.map_filter_simps demo_record_def demo_user_def)

lemma chunks25_single: "chunks25 [k] = [[k]]"
  by (simp add: chunks25_def)

lemma logged_totals:
  "tempo_totals (logged_env secs) s en [Some (ascii ''JIRAUSER1'')] (Some (ascii ''JIRAUSER1''))
     = Some secs"
  "tempo_totals (logged_env secs) s en [Some (ascii ''JIRAUSER1'')] (Some (ascii ''ivanov''))
     = None"
  by (simp_all add: tempo_totals_def fetch_tempo_worklogs_for_users_def fetch_trace_eq
      chunks25_single results_of_def logged_env_fields aggregate_eq demo_worklog_def seconds_of_def
      ascii_def)

lemma demo_join: "join_comma [[1042], [1054, 1058]] = [1042, 44, 32, 1054, 1058]"
  by simp

lemma demo_build_row:
  assumes "agg (Some (ascii ''JIRAUSER1'')) = Some secs" and "secs \<noteq> 0"
  shows "build_row Map.empty agg demo_record =
     demo_row (round2 (of_int secs / 3600)) (round2 (round2 (of_int secs / 3600) - 160))
       (if 4 < \<bar>round2 (round2 (of_int secs / 3600) - 160)\<bar> then status_variance else status_ok)"
proof -
  have d: "ivan_ivanov \<noteq> dash"
    by (simp add: ivan_ivanov_def dash_def)
  from assms have "tempo_seconds agg (Some (ascii ''JIRAUSER1'')) (Some (ascii ''ivanov'')) = secs"
    by (simp add: tempo_seconds_def get0_def)
  with d show ?thesis
    by (simp add: build_row_def demo_record_def demo_user_def demo_row_def demo_join Let_def)
qed

lemma demo_rounding:
  "round2 164 = 164" "round2 4 = 4"
  "round2 (16401 / 100) = 16401 / 100" "round2 (401 / 100) = 401 / 100"
  by (simp_all add: round2_def)

lemma demo_report_ok:
  "worker_process_file (logged_env 590400) demo_sheet = Inr [demo_row 164 4 status_ok]"
proof -
  have "build_row Map.empty
          (tempo_totals (logged_env 590400) (2024, 1, 1) (2024, 1, 31) [Some (ascii ''JIRAUSER1'')])
          demo_record = demo_row 164 4 status_ok"
    using demo_build_row [of "tempo_totals (logged_env 590400) (2024, 1, 1) (2024, 1, 31)
        [Some (ascii ''JIRAUSER1'')]" 590400, OF logged_totals(1)]
    by (simp add: demo_rounding)
  then show ?thesis
    using run_eq [OF _ demo_header logged_excel_data, of 590400 "(2024, 1, 1)" "(2024, 1, 31)"]
    by (simp add: logged_env_fields demo_period demo_keys get_tempo_teams_assignments_def)
qed


lemma report_row_origin:
  assumes "worker_process_file e df = Inr rows" and "row \<in> set rows"
  shows "\<exists>hr nc tm agg r. r \<in> set (excel_data_of e df hr nc) \<and> row = build_row tm agg r"
proof -
  from report_rows [OF assms(1)] obtain hr nc tm agg
    where "set rows = build_row tm agg ` set (excel_data_of e df hr nc)" by blast
  with assms(2) obtain r where "r \<in> set (excel_data_of e df hr nc)" "row = build_row tm agg r"
    by auto
  then show ?thesis by blast
qed

text \<open>
  C3: a record without a directory user gives a row with 0 Tempo hours, the team \<open>Other\<close>
  and the status for not found, whatever its 1C hours; the status of every row is one of
  the three texts; and in a report a row with the status for not found has 0 Tempo hours
  and the team \<open>Other\<close>.
\<close>

theorem C3_unresolved:
  "(jira_user r = None \<longrightarrow>
      row_hours_tempo (build_row tm agg r) = 0
      \<and> row_team (build_row tm agg r) = ascii ''Other''
      \<and> row_status (build_row tm agg r) = status_unresolved)
   \<and> (row_status (build_row tm agg r) = status_ok
        \<or> row_status (build_row tm agg r) = status_variance
        \<or> row_status (build_row tm agg r) = status_unresolved)
   \<and> (worker_process_file e df = Inr rows \<and> row \<in> set rows \<longrightarrow>
        (row_status row = status_ok \<or> row_status row = status_variance
         \<or> row_status row = status_unresolved)
        \<and> (row_status row = status_unresolved \<longrightarrow>
             row_hours_tempo row = 0 \<and> row_team row = ascii ''Other''))"
proof (intro conjI impI)
  assume "jira_user r = None"
  then show "row_hours_tempo (build_row tm agg r) = 0"
    "row_team (build_row tm agg r) = ascii ''Other''"
    "row_status (build_row tm agg r) = status_unresolved"
    by (rule build_row_unresolved)+
next
  show "row_status (build_row tm agg r) = status_ok
        \<or> row_status (build_row tm agg r) = status_variance
        \<or> row_status (build_row tm agg r) = status_unresolved"
    by (rule build_row_status_cases)
next
  assume a: "worker_process_file e df = Inr rows \<and> row \<in> set rows"
  then obtain hr nc tm' agg' r' where r': "r' \<in> set (excel_data_of e df hr nc)"
    and row: "row = build_row tm' agg' r'"
    using report_row_origin by blast
  show "row_status row = status_ok \<or> row_status row = status_variance
         \<or> row_status row = status_unresolved"
    unfolding row by (rule build_row_status_cases)
  assume u: "row_status row = status_unresolved"
  have "jira_user r' = None"
  proof (cases "jira_user r'")
    case None
    then show ?thesis .
  next
    case (Some u')
    with r' have "displayName u' \<noteq> Some dash"
      unfolding excel_data_of_def by (rule extract_records_user)
    with Some u show ?thesis
      unfolding row build_row_unresolved_iff by simp
  qed
  then show "row_hours_tempo row = 0" "row_team row = ascii ''Other''"
    unfolding row by (rule build_row_unresolved)+
qed

theorem C3_unresolved_witness:
  "jira_user (demo_record\<lparr>jira_user := None\<rparr>) = None
   \<and> row_hours_tempo (build_row Map.empty Map.empty (demo_record\<lparr>jira_user := None\<rparr>)) = 0
   \<and> row_team (build_row Map.empty Map.empty (demo_record\<lparr>jira_user := None\<rparr>)) = ascii ''Other''
   \<and> row_status (build_row Map.empty Map.empty (demo_record\<lparr>jira_user := None\<rparr>))
       = status_unresolved
   \<and> worker_process_file (logged_env 590400) demo_sheet = Inr [demo_row 164 4 status_ok]
   \<and> row_status (demo_row 164 4 status_ok) = status_ok"
proof -
  let ?r = "demo_record\<lparr>jira_user := None\<rparr>"
  have n: "jira_user ?r = None"
    by simp
  note T = C3_unresolved [of ?r Map.empty Map.empty "logged_env 590400" demo_sheet
      "[demo_row 164 4 status_ok]" "demo_row 164 4 status_ok"]
  from T [THEN conjunct1, THEN mp, OF n]
  have a: "row_hours_tempo (build_row Map.empty Map.empty ?r) = 0
      \<and> row_team (build_row Map.empty Map.empty ?r) = ascii ''Other''
      \<and> row_status (build_row Map.empty Map.empty ?r) = status_unresolved" .
  have m: "worker_process_file (logged_env 590400) demo_sheet = Inr [demo_row 164 4 status_ok]
           \<and> demo_row 164 4 status_ok \<in> set [demo_row 164 4 status_ok]"
    by (simp add: demo_report_ok)
  from T [THEN conjunct2, THEN conjunct2, THEN mp, OF m]
  have "row_status (demo_row 164 4 status_ok) = status_ok
        \<or> row_status (demo_row 164 4 status_ok) = status_variance
        \<or> row_status (demo_row 164 4 status_ok) = status_unresolved"
    by (rule conjunct1)
  then have "row_status (demo_row 164 4 status_ok) = status_ok"
    by (simp add: demo_row_def)
  with n a m show ?thesis
    by (intro conjI) simp_all
qed





section \<open>The hours column and the absence codes\<close>

lemma hours_step_skipped:
  "hc = None \<or> hc = Some 0 \<Longrightarrow> hours_step pf df hc hours r = hours"
  by (auto simp: hours_step_def)

lemma foldl_block_step_fst:
  "hc = None \<or> hc = Some 0 \<Longrightarrow> fst (foldl (block_step pf df hc acs) st rs) = fst st"
  by (induction rs arbitrary: st) (simp_all add: block_step_def hours_step_skipped)

lemma scan_block_skipped:
  "hc = None \<or> hc = Some 0 \<Longrightarrow> fst (scan_block pf df hc acs i) = 0"
  by (simp add: scan_block_def foldl_block_step_fst)

lemma sort_eq_Nil: "sort xs = [] \<longleftrightarrow> xs = []"
  by (metis length_sort length_0_conv)

lemma extract_row_skipped:
  assumes "hc = None \<or> hc = Some 0" and "extract_row pf users df nc hc acs i = Some r"
  shows "hours_1c r = 0 \<and> absences r \<noteq> []"
proof -
  from extract_row_fields [OF assms(2)] scan_block_skipped [OF assms(1), of pf df acs i]
  show ?thesis by (simp add: sort_eq_Nil)
qed

lemma extract_row_no_codes:
  assumes "hc = None \<or> hc = Some 0" and "snd (scan_block pf df hc acs i) = []"
  shows "extract_row pf users df nc hc acs i = None"
  using assms scan_block_skipped [OF assms(1), of pf df acs i]
  by (simp add: extract_row_def Let_def)











lemma demo_env_fields:
  "to_float demo_env = demo_to_float" "lookup_cache demo_env = [demo_user]"
  "values_str demo_env = demo_values_str" "list_teams demo_env = Failed"
  "list_members demo_env t = Failed" "search_worklogs demo_env s en ws = Failed"
  by (simp_all add: demo_env_def)

lemma unique_demo_user: "unique_users [demo_user] = [demo_user]"
  by (simp add: unique_users_def)

lemma ivanov_facts:
  "\<not> list_ex (contains (py_lower ivanov_ivan)) skip_labels"
  "check_name_match (Some ivan_ivanov) ivanov_ivan"
  "\<not> length ivanov_ivan < 2"
  by (simp add: skip_labels_def ivanov_ivan_def py_lower_def lower_cp_def)
    (simp add: check_name_match_iff tokens_ivan_ivanov tokens_ivanov_ivan,
     simp add: ivanov_ivan_def)

lemma petrov_facts:
  "\<not> list_ex (contains (py_lower petrov_ivan)) skip_labels"
  "\<not> length petrov_ivan < 2"
  by (simp_all add: skip_labels_def petrov_ivan_def py_lower_def lower_cp_def)

subsection \<open>The sheet with the hours in column 0\<close>

lemma narrow_shape: "nrows narrow_sheet = 4" "ncols narrow_sheet = 3"
  by (simp_all add: narrow_sheet_def frame_of_def)

lemma narrow_cells:
  "iloc narrow_sheet 2 0 = Obj (ascii ''160'')"
  "iloc narrow_sheet 2 1 = Text ivanov_ivan"
  "iloc narrow_sheet 2 (Suc 0) = Text ivanov_ivan"
  "iloc narrow_sheet 2 2 = Text [1054, 1058]"
  "iloc narrow_sheet 3 1 = Text petrov_ivan"
  "iloc narrow_sheet 3 (Suc 0) = Text petrov_ivan"
  "iloc narrow_sheet 3 2 = NaN"
  by (simp_all add: iloc_def narrow_sheet_def frame_of_def)

lemma narrow_hours_col: "find_hours_col demo_to_float narrow_sheet = Some 0"
proof -
  have r: "rev [0..<3] = [2, 1, 0::nat]"
    by (simp add: upt_rec)
  have f: "demo_to_float (py_replace 44 46 (ascii ''160'')) = Some 160"
    "demo_to_float (py_replace 44 46 [1054, 1058]) = None"
    "demo_to_float (py_replace 44 46 ivanov_ivan) = None"
    by (simp_all add: demo_to_float_def py_replace_def ascii_def py_isdigit_def is_digit_def
        py_int_def ivanov_ivan_def)
  show ?thesis
    by (simp add: find_hours_col_def narrow_shape r narrow_cells notna_def f del: One_nat_def)
qed

lemma narrow_absence_cols: "find_absence_cols narrow_sheet 1 1 = [2]"
  by code_simp

lemma narrow_scan2: "scan_block demo_to_float narrow_sheet (Some 0) [2] 2 = (0, [[1054, 1058]])"
proof -
  have b: "block_rows narrow_sheet 2 = [2, 3]"
    by (simp add: block_rows_def narrow_shape upt_rec)
  have s: "py_strip [1054, 1058] = [1054, 1058]"
    by (simp add: py_strip_def is_space_def)
  show ?thesis
    by (simp add: scan_block_def b block_step_def hours_step_def absence_step_def narrow_cells
        notna_def s demo_codes)
qed

lemma narrow_scan3: "scan_block demo_to_float narrow_sheet (Some 0) [2] 3 = (0, [])"
proof -
  have b: "block_rows narrow_sheet 3 = [3]"
    by (simp add: block_rows_def narrow_shape upt_rec)
  show ?thesis
    by (simp add: scan_block_def b block_step_def hours_step_def absence_step_def narrow_cells
        notna_def)
qed

lemma narrow_row2:
  "extract_row demo_to_float [demo_user] narrow_sheet 1 (Some 0) [2] 2 = Some narrow_record"
  using ivanov_facts
  by (simp add: extract_row_def narrow_cells notna_def narrow_scan2 demo_clean narrow_record_def
      demo_user_def)

lemma narrow_records:
  "extract_records demo_to_float [demo_user] narrow_sheet 1 1 (Some 0) [2] = [narrow_record]"
proof -
  have r: "[Suc 1..<4] = [2, 3]"
    by (simp add: upt_rec)
  have "extract_row demo_to_float [demo_user] narrow_sheet 1 (Some 0) [2] 3 = None"
    using petrov_facts
    by (simp add: extract_row_def narrow_cells notna_def narrow_scan3)
  then show ?thesis
    unfolding extract_records_def narrow_shape r
    by (simp add: List.map_filter_simps narrow_row2 del: One_nat_def)
qed

lemma narrow_excel_data: "excel_data_of demo_env narrow_sheet 1 1 = [narrow_record]"
  unfolding excel_data_of_def demo_env_fields unique_demo_user narrow_hours_col
    narrow_absence_cols
  by (rule narrow_records)

text \<open>
  C10: when the hours column found is column 0, or none is found, no row's hours are read:
  the hours of every block stay 0, every record extracted has 0 hours and at least one
  absence code, and a row whose block has no absence code gives no record.
\<close>

theorem C10_hours_column_zero:
  "(hc = None \<or> hc = Some 0 \<longrightarrow>
      hours_step pf df hc hours i = hours
      \<and> fst (scan_block pf df hc acs i) = 0
      \<and> (\<forall>r \<in> set (extract_records pf users df hr nc hc acs). hours_1c r = 0 \<and> absences r \<noteq> [])
      \<and> (snd (scan_block pf df hc acs i) = [] \<longrightarrow> extract_row pf users df nc hc acs i = None))
   \<and> (find_hours_col (to_float e) df = None \<or> find_hours_col (to_float e) df = Some 0 \<longrightarrow>
        (\<forall>r \<in> set (excel_data_of e df hr nc). hours_1c r = 0 \<and> absences r \<noteq> []))"
proof (intro conjI impI ballI)
  assume h: "hc = None \<or> hc = Some 0"
  then show "hours_step pf df hc hours i = hours"
    by (rule hours_step_skipped)
  from h show "fst (scan_block pf df hc acs i) = 0"
    by (rule scan_block_skipped)
  {
    fix r assume "r \<in> set (extract_records pf users df hr nc hc acs)"
    then obtain j where "extract_row pf users df nc hc acs j = Some r"
      by (auto simp: extract_records_mem)
    from extract_row_skipped [OF h this]
    show "hours_1c r = 0" "absences r \<noteq> []" by simp_all
  }
  {
    assume "snd (scan_block pf df hc acs i) = []"
    with h show "extract_row pf users df nc hc acs i = None"
      by (rule extract_row_no_codes)
  }
next
  fix r
  assume h: "find_hours_col (to_float e) df = None \<or> find_hours_col (to_float e) df = Some 0"
    and "r \<in> set (excel_data_of e df hr nc)"
  then obtain j where "extract_row (to_float e) (unique_users (lookup_cache e)) df nc
      (find_hours_col (to_float e) df) (find_absence_cols df hr nc) j = Some r"
    by (auto simp: excel_data_of_def extract_records_mem)
  from extract_row_skipped [OF h this]
  show "hours_1c r = 0" "absences r \<noteq> []" by simp_all
qed

theorem C10_hours_column_zero_witness:
  "find_hours_col (to_float demo_env) narrow_sheet = Some 0
   \<and> iloc narrow_sheet 2 0 = Obj (ascii ''160'')
   \<and> excel_data_of demo_env narrow_sheet 1 1 = [narrow_record]
   \<and> hours_1c narrow_record = 0 \<and> absences narrow_record \<noteq> []
   \<and> snd (scan_block demo_to_float narrow_sheet (Some 0) [2] 3) = []
   \<and> extract_row demo_to_float [demo_user] narrow_sheet 1 (Some 0) [2] 3 = None"
proof -
  have hc: "find_hours_col (to_float demo_env) narrow_sheet = Some 0"
    by (simp only: demo_env_fields narrow_hours_col)
  then have h: "find_hours_col (to_float demo_env) narrow_sheet = None
                \<or> find_hours_col (to_float demo_env) narrow_sheet = Some 0"
    by (rule disjI2)
  have m: "narrow_record \<in> set (excel_data_of demo_env narrow_sheet 1 1)"
    unfolding narrow_excel_data by simp
  from C10_hours_column_zero [of "Some 0" demo_to_float narrow_sheet 0 3 "[2]" "[demo_user]" 1 1
      demo_env, THEN conjunct2, THEN mp, OF h, THEN bspec, OF m]
  have a: "hours_1c narrow_record = 0 \<and> absences narrow_record \<noteq> []" .
  have z: "Some (0::nat) = None \<or> Some (0::nat) = Some 0"
    by simp
  have e: "snd (scan_block demo_to_float narrow_sheet (Some 0) [2] 3) = []"
    by (simp add: narrow_scan3)
  from C10_hours_column_zero [of "Some 0" demo_to_float narrow_sheet 0 3 "[2]" "[demo_user]" 1 1
      demo_env, THEN conjunct1, THEN mp, OF z]
  have "snd (scan_block demo_to_float narrow_sheet (Some 0) [2] 3) = []
        \<longrightarrow> extract_row demo_to_float [demo_user] narrow_sheet 1 (Some 0) [2] 3 = None"
    by blast
  with e have n: "extract_row demo_to_float [demo_user] narrow_sheet 1 (Some 0) [2] 3 = None"
    by blast
  from hc narrow_cells(1) narrow_excel_data a e n show ?thesis
    by (intro conjI) blast+
qed

subsection \<open>The absence codes of a record\<close>












section \<open>Failed upstream requests\<close>


















end
